theory Spec2Isabelle
  imports Complex_Main "HOL-Library.AList"
begin

section \<open>JavaScript values\<close>

text \<open>
  The cart code is dynamically typed: every argument and every stored field can hold any
  value. The model therefore works on one datatype of values and writes out the
  language's coercions (truthiness, \<open>String(v)\<close>, \<open>Number(v)\<close>, \<open>===\<close>, \<open>+\<close>) as
  functions. Values are the JSON values together with \<open>undefined\<close> and \<open>NaN\<close>;
  functions, symbols, dates and objects with accessors are not covered.

  Numbers are exact: a number is a rational or \<open>NaN\<close>. Rounding to binary floating
  point, overflow, the two infinities and negative zero are left out, so a text that
  JavaScript reads as an infinity (\<open>Infinity\<close>) counts as not a number here.

  A \<open>char\<close> stands for one code unit of a JavaScript string; the model covers the code
  units below 256. An object is the list of its own properties in their order.
\<close>

datatype jsnum = NaN | Fin rat

datatype jsval =
    JUndef
  | JNull
  | JBool bool
  | JNum jsnum
  | JStr string
  | JArr "jsval list"
  | JObj "(string \<times> jsval) list"

datatype error = TypeError

abbreviation jnum :: "rat \<Rightarrow> jsval" where
  "jnum r \<equiv> JNum (Fin r)"

subsection \<open>Truthiness and the operator \<open>||\<close>\<close>

fun truthy :: "jsval \<Rightarrow> bool" where
  "truthy JUndef = False"
| "truthy JNull = False"
| "truthy (JBool b) = b"
| "truthy (JNum NaN) = False"
| "truthy (JNum (Fin r)) = (r \<noteq> 0)"
| "truthy (JStr s) = (s \<noteq> [])"
| "truthy (JArr xs) = True"
| "truthy (JObj ps) = True"

definition js_or :: "jsval \<Rightarrow> jsval \<Rightarrow> jsval" where
  "js_or a b = (if truthy a then a else b)"

subsection \<open>Numbers to strings\<close>

definition digit_char :: "int \<Rightarrow> char" where
  "digit_char d = ''0123456789'' ! nat d"

function digits10 :: "int \<Rightarrow> string" where
  "digits10 n = (if n < 10 then [digit_char n] else digits10 (n div 10) @ [digit_char (n mod 10)])"
  by pat_completeness auto
termination
  by (relation "measure nat") auto

declare digits10.simps [simp del]

text \<open>
  \<open>lead_zeros a b\<close> counts the zeros between the decimal point and the first
  significant digit of \<open>a / b\<close>, for \<open>0 < a < b\<close>.
\<close>

function lead_zeros :: "int \<Rightarrow> int \<Rightarrow> nat" where
  "lead_zeros a b = (if a \<le> 0 \<or> b \<le> 10 * a then 0 else Suc (lead_zeros (10 * a) b))"
  by pat_completeness auto
termination
  by (relation "measure (\<lambda>(a, b). nat (b - a))") auto

declare lead_zeros.simps [simp del]

text \<open>The \<open>n\<close> with \<open>10 ^ (n - 1) \<le> r < 10 ^ n\<close>, for a positive \<open>r\<close>.\<close>

definition dec_exponent :: "rat \<Rightarrow> int" where
  "dec_exponent r =
     (if 1 \<le> r then int (length (digits10 \<lfloor>r\<rfloor>))
      else (case quotient_of r of (a, b) \<Rightarrow> - int (lead_zeros a b)))"

definition scale10 :: "rat \<Rightarrow> int \<Rightarrow> rat" where
  "scale10 r e = (if 0 \<le> e then r * 10 ^ nat e else r / 10 ^ nat (- e))"

definition strip_zeros :: "string \<Rightarrow> string" where
  "strip_zeros s = rev (dropWhile (\<lambda>c. c = CHR ''0'') (rev s))"

text \<open>
  \<open>Number::toString\<close> of the language definition for a positive number: \<open>s\<close> are the
  significant digits, \<open>k\<close> their count and \<open>n\<close> the decimal exponent. JavaScript takes
  the shortest digits that identify the floating-point number, which are at most 17; the
  model takes the first 17 digits of the exact expansion.
\<close>

definition pos_to_string :: "rat \<Rightarrow> string" where
  "pos_to_string r =
     (let n = dec_exponent r;
          s = strip_zeros (digits10 \<lfloor>scale10 r (17 - n)\<rfloor>);
          k = int (length s)
      in if k \<le> n \<and> n \<le> 21 then s @ replicate (nat (n - k)) (CHR ''0'')
         else if 0 < n \<and> n \<le> 21 then take (nat n) s @ ''.'' @ drop (nat n) s
         else if - 6 < n \<and> n \<le> 0 then ''0.'' @ replicate (nat (- n)) (CHR ''0'') @ s
         else (let e = n - 1;
                   es = (if e < 0 then ''-'' else ''+'') @ digits10 \<bar>e\<bar>
               in if k = 1 then s @ ''e'' @ es
                  else take 1 s @ ''.'' @ drop 1 s @ ''e'' @ es))"

fun num_to_string :: "jsnum \<Rightarrow> string" where
  "num_to_string NaN = ''NaN''"
| "num_to_string (Fin r) =
     (if r = 0 then ''0''
      else if r < 0 then ''-'' @ pos_to_string (- r)
      else pos_to_string r)"

subsection \<open>\<open>String(v)\<close>\<close>

fun join :: "string \<Rightarrow> string list \<Rightarrow> string" where
  "join sep [] = []"
| "join sep [s] = s"
| "join sep (s # t # ss) = s @ sep @ join sep (t # ss)"

text \<open>
  An array prints as its elements joined by commas, \<open>null\<close> and \<open>undefined\<close> elements
  as the empty string; a plain object prints as \<open>[object Object]\<close>.
\<close>

fun to_string :: "jsval \<Rightarrow> string" where
  "to_string JUndef = ''undefined''"
| "to_string JNull = ''null''"
| "to_string (JBool b) = (if b then ''true'' else ''false'')"
| "to_string (JNum n) = num_to_string n"
| "to_string (JStr s) = s"
| "to_string (JArr xs) =
     join '','' (map (\<lambda>x. if x = JUndef \<or> x = JNull then [] else to_string x) xs)"
| "to_string (JObj ps) = ''[object Object]''"

subsection \<open>Strings to numbers\<close>

definition digit_of :: "char \<Rightarrow> int option" where
  "digit_of = map_of
     [(CHR ''0'', 0), (CHR ''1'', 1), (CHR ''2'', 2), (CHR ''3'', 3), (CHR ''4'', 4),
      (CHR ''5'', 5), (CHR ''6'', 6), (CHR ''7'', 7), (CHR ''8'', 8), (CHR ''9'', 9)]"

definition is_digit :: "char \<Rightarrow> bool" where
  "is_digit c = (digit_of c \<noteq> None)"

definition digits_value :: "string \<Rightarrow> int" where
  "digits_value ds = foldl (\<lambda>a c. 10 * a + (case digit_of c of None \<Rightarrow> 0 | Some d \<Rightarrow> d)) 0 ds"

text \<open>White space and line terminators among the code units below 256.\<close>

definition is_ws :: "char \<Rightarrow> bool" where
  "is_ws c = (c \<in> set [CHR 0x09, CHR 0x0A, CHR 0x0B, CHR 0x0C, CHR 0x0D, CHR 0x20, CHR 0xA0])"

definition split_sign :: "string \<Rightarrow> bool \<times> string" where
  "split_sign s =
     (case s of
        [] \<Rightarrow> (False, [])
      | c # r \<Rightarrow> if c = CHR ''-'' then (True, r) else if c = CHR ''+'' then (False, r) else (False, s))"

text \<open>
  \<open>parseInt(s, 10)\<close>: leading white space is skipped, a sign is read, then the longest
  run of decimal digits; whatever follows is ignored, and no digit at all gives \<open>NaN\<close>.
\<close>

definition parseInt_str :: "string \<Rightarrow> jsnum" where
  "parseInt_str s =
     (case split_sign (dropWhile is_ws s) of
        (neg, u) \<Rightarrow>
          (let ds = takeWhile is_digit u
           in if ds = [] then NaN
              else Fin (of_int (digits_value ds) * (if neg then - 1 else 1))))"

definition parseInt :: "jsval \<Rightarrow> jsnum" where
  "parseInt v = parseInt_str (to_string v)"

definition trim :: "string \<Rightarrow> string" where
  "trim s = rev (dropWhile is_ws (rev (dropWhile is_ws s)))"

definition radix_digit :: "char \<Rightarrow> int option" where
  "radix_digit = map_of
     (zip ''0123456789abcdef'' [0 .. 15] @ zip ''ABCDEF'' [10 .. 15])"

definition radix_value :: "int \<Rightarrow> string \<Rightarrow> jsnum" where
  "radix_value b ds =
     (if ds \<noteq> [] \<and> (\<forall>c \<in> set ds. case radix_digit c of None \<Rightarrow> False | Some d \<Rightarrow> d < b)
      then Fin (of_int (foldl (\<lambda>a c. b * a + (case radix_digit c of None \<Rightarrow> 0 | Some d \<Rightarrow> d)) 0 ds))
      else NaN)"

text \<open>
  The exponent part of a decimal literal: nothing, or \<open>e\<close> or \<open>E\<close>, an optional sign and
  at least one digit, up to the end of the text.
\<close>

definition exponent_part :: "string \<Rightarrow> int option" where
  "exponent_part s =
     (case s of
        [] \<Rightarrow> Some 0
      | c # r \<Rightarrow>
          if c = CHR ''e'' \<or> c = CHR ''E'' then
            (case split_sign r of
               (neg, ds) \<Rightarrow>
                 if ds \<noteq> [] \<and> list_all is_digit ds
                 then Some (digits_value ds * (if neg then - 1 else 1))
                 else None)
          else None)"

definition decimal_literal :: "string \<Rightarrow> jsnum" where
  "decimal_literal s =
     (case split_sign s of
        (neg, u) \<Rightarrow>
          (let ip = takeWhile is_digit u;
               r1 = dropWhile is_digit u;
               fp = (case r1 of [] \<Rightarrow> [] | c # r \<Rightarrow> if c = CHR ''.'' then takeWhile is_digit r else []);
               r2 = (case r1 of [] \<Rightarrow> [] | c # r \<Rightarrow> if c = CHR ''.'' then dropWhile is_digit r else r1)
           in if ip = [] \<and> fp = [] then NaN
              else (case exponent_part r2 of
                      None \<Rightarrow> NaN
                    | Some e \<Rightarrow>
                        Fin (scale10
                               (of_int (digits_value ip) + of_int (digits_value fp) / 10 ^ length fp) e
                             * (if neg then - 1 else 1)))))"

text \<open>
  \<open>Number(s)\<close> for a string: the text is trimmed; the empty text is 0; a hexadecimal,
  octal or binary literal carries no sign; everything else is a signed decimal literal
  or not a number.
\<close>

definition str_to_num :: "string \<Rightarrow> jsnum" where
  "str_to_num s =
     (let t = trim s
      in if t = [] then Fin 0
         else if take 2 t = ''0x'' \<or> take 2 t = ''0X'' then radix_value 16 (drop 2 t)
         else if take 2 t = ''0o'' \<or> take 2 t = ''0O'' then radix_value 8 (drop 2 t)
         else if take 2 t = ''0b'' \<or> take 2 t = ''0B'' then radix_value 2 (drop 2 t)
         else decimal_literal t)"

fun to_number :: "jsval \<Rightarrow> jsnum" where
  "to_number JUndef = NaN"
| "to_number JNull = Fin 0"
| "to_number (JBool b) = Fin (if b then 1 else 0)"
| "to_number (JNum n) = n"
| "to_number (JStr s) = str_to_num s"
| "to_number (JArr xs) = str_to_num (to_string (JArr xs))"
| "to_number (JObj ps) = str_to_num (to_string (JObj ps))"

subsection \<open>Arithmetic\<close>

fun num_add :: "jsnum \<Rightarrow> jsnum \<Rightarrow> jsnum" where
  "num_add (Fin a) (Fin b) = Fin (a + b)"
| "num_add _ _ = NaN"

fun num_mul :: "jsnum \<Rightarrow> jsnum \<Rightarrow> jsnum" where
  "num_mul (Fin a) (Fin b) = Fin (a * b)"
| "num_mul _ _ = NaN"

text \<open>\<open>Math.max(a, b)\<close>: \<open>NaN\<close> if either argument is \<open>NaN\<close>.\<close>

fun math_max :: "jsnum \<Rightarrow> jsnum \<Rightarrow> jsnum" where
  "math_max (Fin a) (Fin b) = Fin (max a b)"
| "math_max _ _ = NaN"

text \<open>
  The operator \<open>+\<close>: an array or object operand is first turned into its string; if
  either operand is then a string the result is the concatenation, otherwise the sum of
  the operands as numbers.
\<close>

fun to_primitive :: "jsval \<Rightarrow> jsval" where
  "to_primitive (JArr xs) = JStr (to_string (JArr xs))"
| "to_primitive (JObj ps) = JStr (to_string (JObj ps))"
| "to_primitive v = v"

definition is_str :: "jsval \<Rightarrow> bool" where
  "is_str v = (case v of JStr _ \<Rightarrow> True | _ \<Rightarrow> False)"

definition js_plus :: "jsval \<Rightarrow> jsval \<Rightarrow> jsval" where
  "js_plus a b =
     (let p = to_primitive a; q = to_primitive b
      in if is_str p \<or> is_str q then JStr (to_string p @ to_string q)
         else JNum (num_add (to_number p) (to_number q)))"

text \<open>
  \<open>x.toFixed(2)\<close>: the sign, then the nearest multiple of 1/100 (the larger of two
  equally near), printed with two decimals; from \<open>10 ^ 21\<close> on, the number prints as
  \<open>String(x)\<close> does.
\<close>

definition toFixed2 :: "jsnum \<Rightarrow> string" where
  "toFixed2 x =
     (case x of
        NaN \<Rightarrow> ''NaN''
      | Fin r \<Rightarrow>
          (let a = \<bar>r\<bar>;
               n = \<lfloor>a * 100 + 1 / 2\<rfloor>;
               m = (if 10 ^ 21 \<le> a then pos_to_string a
                    else digits10 (n div 100) @ ''.'' @ [digit_char (n mod 100 div 10), digit_char (n mod 10)])
           in (if r < 0 then ''-'' else []) @ m))"

subsection \<open>Strict equality and properties\<close>

text \<open>
  \<open>a === b\<close>, where \<open>a\<close> was read from a freshly parsed value: an array or object is
  equal only to itself, so it equals no argument; \<open>NaN\<close> equals nothing.
\<close>

fun strict_eq :: "jsval \<Rightarrow> jsval \<Rightarrow> bool" where
  "strict_eq JUndef JUndef = True"
| "strict_eq JNull JNull = True"
| "strict_eq (JBool a) (JBool b) = (a = b)"
| "strict_eq (JNum (Fin a)) (JNum (Fin b)) = (a = b)"
| "strict_eq (JStr a) (JStr b) = (a = b)"
| "strict_eq _ _ = False"

text \<open>
  Reading a property \<open>x.f\<close> throws on \<open>null\<close> and \<open>undefined\<close>. The cart reads only
  \<open>menu_item_id\<close>, \<open>name\<close>, \<open>price\<close>, \<open>qty\<close> and \<open>note\<close>, which no prototype
  defines, so on a number, boolean, string or array the result is \<open>undefined\<close>.
\<close>

fun get_prop :: "jsval \<Rightarrow> string \<Rightarrow> error + jsval" where
  "get_prop JUndef f = Inl TypeError"
| "get_prop JNull f = Inl TypeError"
| "get_prop (JObj ps) f = Inr (case map_of ps f of None \<Rightarrow> JUndef | Some v \<Rightarrow> v)"
| "get_prop _ f = Inr JUndef"

text \<open>
  Writing a property \<open>x.f = v\<close> of an object replaces the property or appends it. The
  file is a classic script without a strict-mode directive, so the write is ignored on
  a number, boolean or string; on an array it creates a property that
  \<open>JSON.stringify\<close> does not print. \<open>set_prop\<close> is applied to truthy values only.
\<close>

fun set_prop :: "jsval \<Rightarrow> string \<Rightarrow> jsval \<Rightarrow> jsval" where
  "set_prop (JObj ps) f v = JObj (AList.update f v ps)"
| "set_prop x f v = x"

subsection \<open>JSON\<close>

text \<open>
  \<open>JSON.parse(JSON.stringify(v))\<close>: \<open>NaN\<close> and an \<open>undefined\<close> array element come
  back as \<open>null\<close>, an \<open>undefined\<close> property is dropped.
\<close>

fun json_norm :: "jsval \<Rightarrow> jsval" where
  "json_norm JUndef = JNull"
| "json_norm (JNum NaN) = JNull"
| "json_norm (JArr xs) = JArr (map json_norm xs)"
| "json_norm (JObj ps) =
     JObj (map (\<lambda>p. (fst p, json_norm (snd p))) (filter (\<lambda>p. snd p \<noteq> JUndef) ps))"
| "json_norm v = v"

section \<open>The cart\<close>

text \<open>
  The page holds the module variable \<open>key\<close> (\<open>null\<close> until \<open>init\<close> runs), the
  browser's \<open>localStorage\<close> and the two counter elements \<open>cartCount\<close> and
  \<open>cartTotal\<close>: \<open>None\<close> is an element the page does not have, \<open>Some t\<close> one with the
  text \<open>t\<close>.

  The cart reads a stored string only through \<open>JSON.parse\<close>, so a stored string is held
  as what \<open>JSON.parse\<close> makes of it: \<open>Unparsable\<close> if \<open>JSON.parse\<close> throws on it,
  and \<open>Json v\<close> if it parses to \<open>v\<close>.
\<close>

datatype stored = Unparsable | Json jsval

record page =
  key :: "string option"
  storage :: "string \<rightharpoonup> stored"
  cartCount :: "string option"
  cartTotal :: "string option"

text \<open>\<open>localStorage\<close> turns the key into a string, \<open>null\<close> into \<open>''null''\<close>.\<close>

definition storage_key :: "page \<Rightarrow> string" where
  "storage_key st = (case key st of None \<Rightarrow> ''null'' | Some k \<Rightarrow> k)"

text \<open>
  \<open>_load\<close>, here \<open>load\<close>: a missing entry reads as \<open>[]\<close>, and so does one that does
  not parse. (The empty string is replaced by \<open>[]\<close> before parsing and would not parse
  either.) \<open>_save\<close> is \<open>save\<close> below, and \<open>total\<close> is \<open>total_cart\<close>, since
  \<open>total\<close> is a notion of the library.
\<close>

definition load :: "page \<Rightarrow> jsval" where
  "load st =
     (case storage st (storage_key st) of
        None \<Rightarrow> JArr []
      | Some Unparsable \<Rightarrow> JArr []
      | Some (Json v) \<Rightarrow> v)"

text \<open>
  Calling \<open>find\<close>, \<open>filter\<close> or \<open>reduce\<close> on a parsed value that is not an array
  throws: the method is missing, or the value is \<open>null\<close>.
\<close>

definition as_array :: "jsval \<Rightarrow> error + jsval list" where
  "as_array v = (case v of JArr xs \<Rightarrow> Inr xs | _ \<Rightarrow> Inl TypeError)"

text \<open>\<open>Number(v) || 0\<close>\<close>

definition or_zero :: "jsnum \<Rightarrow> jsnum" where
  "or_zero n = (if truthy (JNum n) then n else Fin 0)"

fun reduce_total :: "jsnum \<Rightarrow> jsval list \<Rightarrow> error + jsnum" where
  "reduce_total s [] = Inr s"
| "reduce_total s (x # xs) =
     (case get_prop x ''price'' of
        Inl e \<Rightarrow> Inl e
      | Inr p \<Rightarrow>
          (case get_prop x ''qty'' of
             Inl e \<Rightarrow> Inl e
           | Inr q \<Rightarrow>
               reduce_total
                 (num_add s (num_mul (or_zero (to_number p)) (or_zero (to_number q)))) xs))"

fun reduce_count :: "jsnum \<Rightarrow> jsval list \<Rightarrow> error + jsnum" where
  "reduce_count s [] = Inr s"
| "reduce_count s (x # xs) =
     (case get_prop x ''qty'' of
        Inl e \<Rightarrow> Inl e
      | Inr q \<Rightarrow> reduce_count (num_add s (or_zero (to_number q))) xs)"

definition total_cart :: "page \<Rightarrow> error + jsnum" where
  "total_cart st = (case as_array (load st) of Inl e \<Rightarrow> Inl e | Inr lines \<Rightarrow> reduce_total (Fin 0) lines)"

definition count :: "page \<Rightarrow> error + jsnum" where
  "count st = (case as_array (load st) of Inl e \<Rightarrow> Inl e | Inr lines \<Rightarrow> reduce_count (Fin 0) lines)"

text \<open>
  A procedure returns the error it threw, if any, and the page as it left it: what was
  written before the throw stays written. \<open>syncUI\<close> writes the count, then the
  total, each if its element is there.
\<close>

definition sync_count :: "page \<Rightarrow> error + page" where
  "sync_count st =
     (if cartCount st = None then Inr st
      else case count st of
             Inl e \<Rightarrow> Inl e
           | Inr n \<Rightarrow> Inr (st\<lparr>cartCount := Some (num_to_string n)\<rparr>))"

definition sync_total :: "page \<Rightarrow> error + page" where
  "sync_total st =
     (if cartTotal st = None then Inr st
      else case total_cart st of
             Inl e \<Rightarrow> Inl e
           | Inr n \<Rightarrow> Inr (st\<lparr>cartTotal := Some (toFixed2 n)\<rparr>))"

definition syncUI :: "page \<Rightarrow> error option \<times> page" where
  "syncUI st =
     (case sync_count st of
        Inl e \<Rightarrow> (Some e, st)
      | Inr st1 \<Rightarrow>
          (case sync_total st1 of
             Inl e \<Rightarrow> (Some e, st1)
           | Inr st2 \<Rightarrow> (None, st2)))"

definition init :: "jsval \<Rightarrow> jsval \<Rightarrow> page \<Rightarrow> error option \<times> page" where
  "init tableToken customerId st =
     syncUI (st\<lparr>key := Some (''cart:'' @ to_string tableToken @ '':''
                              @ to_string (js_or customerId (JStr ''anon'')))\<rparr>)"

definition save :: "jsval list \<Rightarrow> page \<Rightarrow> error option \<times> page" where
  "save lines st =
     syncUI (st\<lparr>storage := (storage st)(storage_key st \<mapsto> Json (json_norm (JArr lines)))\<rparr>)"

text \<open>
  \<open>lines.find(x => x.menu_item_id === menu_item_id)\<close>, as the index of the first match:
  the caller writes to the line it found, which is that element of \<open>lines\<close>.
\<close>

fun find_line :: "jsval list \<Rightarrow> jsval \<Rightarrow> error + nat option" where
  "find_line [] menu_item_id = Inr None"
| "find_line (x # xs) menu_item_id =
     (case get_prop x ''menu_item_id'' of
        Inl e \<Rightarrow> Inl e
      | Inr v \<Rightarrow>
          if strict_eq v menu_item_id then Inr (Some 0)
          else (case find_line xs menu_item_id of
                  Inl e \<Rightarrow> Inl e
                | Inr None \<Rightarrow> Inr None
                | Inr (Some i) \<Rightarrow> Inr (Some (Suc i))))"

definition new_line :: "jsval \<Rightarrow> jsval \<Rightarrow> jsval \<Rightarrow> jsval" where
  "new_line menu_item_id name price =
     JObj [(''menu_item_id'', menu_item_id), (''name'', name), (''price'', price),
           (''qty'', jnum 1), (''note'', JStr [])]"

definition add :: "jsval \<Rightarrow> jsval \<Rightarrow> jsval \<Rightarrow> page \<Rightarrow> error option \<times> page" where
  "add menu_item_id name price st =
     (case as_array (load st) of
        Inl e \<Rightarrow> (Some e, st)
      | Inr lines \<Rightarrow>
          (case find_line lines menu_item_id of
             Inl e \<Rightarrow> (Some e, st)
           | Inr found \<Rightarrow>
               (case found of
                  None \<Rightarrow> save (lines @ [new_line menu_item_id name price]) st
                | Some i \<Rightarrow>
                    if \<not> truthy (lines ! i) then save (lines @ [new_line menu_item_id name price]) st
                    else (case get_prop (lines ! i) ''qty'' of
                            Inl e \<Rightarrow> (Some e, st)
                          | Inr q \<Rightarrow>
                              save (lines[i := set_prop (lines ! i) ''qty'' (js_plus q (jnum 1))]) st))))"

fun filter_lines :: "jsval list \<Rightarrow> jsval \<Rightarrow> error + jsval list" where
  "filter_lines [] menu_item_id = Inr []"
| "filter_lines (x # xs) menu_item_id =
     (case get_prop x ''menu_item_id'' of
        Inl e \<Rightarrow> Inl e
      | Inr v \<Rightarrow>
          (case filter_lines xs menu_item_id of
             Inl e \<Rightarrow> Inl e
           | Inr ys \<Rightarrow> Inr (if \<not> strict_eq v menu_item_id then x # ys else ys)))"

definition remove :: "jsval \<Rightarrow> page \<Rightarrow> error option \<times> page" where
  "remove menu_item_id st =
     (case as_array (load st) of
        Inl e \<Rightarrow> (Some e, st)
      | Inr lines \<Rightarrow>
          (case filter_lines lines menu_item_id of
             Inl e \<Rightarrow> (Some e, st)
           | Inr lines' \<Rightarrow> save lines' st))"

definition setQty :: "jsval \<Rightarrow> jsval \<Rightarrow> page \<Rightarrow> error option \<times> page" where
  "setQty menu_item_id qty st =
     (case as_array (load st) of
        Inl e \<Rightarrow> (Some e, st)
      | Inr lines \<Rightarrow>
          (case find_line lines menu_item_id of
             Inl e \<Rightarrow> (Some e, st)
           | Inr found \<Rightarrow>
               (case found of
                  None \<Rightarrow> (None, st)
                | Some i \<Rightarrow>
                    if \<not> truthy (lines ! i) then (None, st)
                    else save (lines[i := set_prop (lines ! i) ''qty''
                                 (JNum (math_max (Fin 1) (parseInt (js_or qty (jnum 1)))))]) st)))"

text \<open>
  \<open>(note || "").slice(0, 300)\<close>: the first 300 code units of a string and the first
  300 elements of an array; any other truthy value has no method \<open>slice\<close>.
\<close>

definition slice300 :: "jsval \<Rightarrow> error + jsval" where
  "slice300 v =
     (case v of
        JStr s \<Rightarrow> Inr (JStr (take 300 s))
      | JArr xs \<Rightarrow> Inr (JArr (take 300 xs))
      | _ \<Rightarrow> Inl TypeError)"

definition setNote :: "jsval \<Rightarrow> jsval \<Rightarrow> page \<Rightarrow> error option \<times> page" where
  "setNote menu_item_id note st =
     (case as_array (load st) of
        Inl e \<Rightarrow> (Some e, st)
      | Inr lines \<Rightarrow>
          (case find_line lines menu_item_id of
             Inl e \<Rightarrow> (Some e, st)
           | Inr found \<Rightarrow>
               (case found of
                  None \<Rightarrow> (None, st)
                | Some i \<Rightarrow>
                    if \<not> truthy (lines ! i) then (None, st)
                    else (case slice300 (js_or note (JStr [])) of
                            Inl e \<Rightarrow> (Some e, st)
                          | Inr n \<Rightarrow> save (lines[i := set_prop (lines ! i) ''note'' n]) st))))"

definition getLines :: "page \<Rightarrow> jsval" where
  "getLines st = load st"

definition clear :: "page \<Rightarrow> error option \<times> page" where
  "clear st = syncUI (st\<lparr>storage := (storage st)(storage_key st := None)\<rparr>)"

subsection \<open>Calls and sequences of calls\<close>

datatype cart_op =
    Add jsval jsval jsval
  | Remove jsval
  | SetQty jsval jsval
  | SetNote jsval jsval
  | Clear
  | GetLines
  | Total
  | Count

text \<open>
  A call gives what it returned, or the error it threw, and the page after it. A
  procedure returns \<open>undefined\<close>.
\<close>

definition returned :: "error option \<times> page \<Rightarrow> (error + jsval) \<times> page" where
  "returned r = ((case fst r of None \<Rightarrow> Inr JUndef | Some e \<Rightarrow> Inl e), snd r)"

definition as_value :: "error + jsnum \<Rightarrow> error + jsval" where
  "as_value r = (case r of Inl e \<Rightarrow> Inl e | Inr n \<Rightarrow> Inr (JNum n))"

fun exec :: "cart_op \<Rightarrow> page \<Rightarrow> (error + jsval) \<times> page" where
  "exec (Add i n p) st = returned (add i n p st)"
| "exec (Remove i) st = returned (remove i st)"
| "exec (SetQty i q) st = returned (setQty i q st)"
| "exec (SetNote i n) st = returned (setNote i n st)"
| "exec Clear st = returned (clear st)"
| "exec GetLines st = (Inr (getLines st), st)"
| "exec Total st = (as_value (total_cart st), st)"
| "exec Count st = (as_value (count st), st)"

text \<open>
  Each call is an event of its own: a call that throws does not keep the later ones
  from running.
\<close>

fun run :: "cart_op list \<Rightarrow> page \<Rightarrow> page" where
  "run [] st = st"
| "run (c # cs) st = run cs (snd (exec c st))"

text \<open>A page on which \<open>init\<close> has not run and nothing is stored.\<close>

definition empty_page :: "string option \<Rightarrow> string option \<Rightarrow> page" where
  "empty_page c t = \<lparr>key = None, storage = Map.empty, cartCount = c, cartTotal = t\<rparr>"

subsection \<open>The invariant of the cart's lines\<close>

text \<open>
  A line is well formed if its quantity is a number that is at least 1 and its note is a
  string of at most 300 code units.
\<close>

definition line_ok :: "jsval \<Rightarrow> bool" where
  "line_ok x =
     (case x of
        JObj ps \<Rightarrow>
          (case map_of ps ''qty'' of Some (JNum (Fin q)) \<Rightarrow> 1 \<le> q | _ \<Rightarrow> False) \<and>
          (case map_of ps ''note'' of Some (JStr s) \<Rightarrow> length s \<le> 300 | _ \<Rightarrow> False)
      | _ \<Rightarrow> False)"

definition cart_ok :: "page \<Rightarrow> bool" where
  "cart_ok st = (case load st of JArr xs \<Rightarrow> list_all line_ok xs | _ \<Rightarrow> False)"

subsection \<open>Other entries of the storage\<close>

text \<open>
  \<open>set_entry k v\<close> is a write to the storage from elsewhere (another script, another
  tab, the cart of another table): the entry at \<open>k\<close> is set to \<open>v\<close>, or removed if
  \<open>v\<close> is \<open>None\<close>.
\<close>

definition set_entry :: "string \<Rightarrow> stored option \<Rightarrow> page \<Rightarrow> page" where
  "set_entry k v st = st\<lparr>storage := (storage st)(k := v)\<rparr>"

text \<open>
  Two pages show the same cart if they agree on the key, on what \<open>_load\<close> reads, on
  the two counters and on every entry of the storage but the cart's own.
\<close>

definition same_cart :: "page \<Rightarrow> page \<Rightarrow> bool" where
  "same_cart st st' =
     (key st = key st' \<and> load st = load st' \<and>
      cartCount st = cartCount st' \<and> cartTotal st = cartTotal st' \<and>
      (\<forall>k. k \<noteq> storage_key st \<longrightarrow> storage st k = storage st' k))"

text \<open>What a sequence of calls returns or throws, call by call.\<close>

fun outcomes :: "cart_op list \<Rightarrow> page \<Rightarrow> (error + jsval) list" where
  "outcomes [] st = []"
| "outcomes (c # cs) st = fst (exec c st) # outcomes cs (snd (exec c st))"

definition threw :: "error + 'a \<Rightarrow> bool" where
  "threw r = (case r of Inl e \<Rightarrow> True | Inr v \<Rightarrow> False)"

subsection \<open>Stored values\<close>

text \<open>
  The values \<open>JSON.parse\<close> returns: \<open>undefined\<close> and \<open>NaN\<close> occur nowhere in them.
\<close>

fun is_json :: "jsval \<Rightarrow> bool" where
  "is_json JUndef = False"
| "is_json (JNum NaN) = False"
| "is_json (JArr xs) = list_all is_json xs"
| "is_json (JObj ps) = list_all (\<lambda>p. is_json (snd p)) ps"
| "is_json v = True"

text \<open>
  The total and the count as the specification words them: the sum over the lines of
  price times quantity, and of the quantities, where a field that is missing or that
  \<open>Number\<close> does not turn into a number counts as zero.
\<close>

definition field_number :: "jsval \<Rightarrow> string \<Rightarrow> rat" where
  "field_number x f =
     (case get_prop x f of
        Inl e \<Rightarrow> 0
      | Inr v \<Rightarrow> (case to_number v of NaN \<Rightarrow> 0 | Fin r \<Rightarrow> r))"

definition spec_total :: "jsval list \<Rightarrow> rat" where
  "spec_total lines = (\<Sum>x\<leftarrow>lines. field_number x ''price'' * field_number x ''qty'')"

definition spec_count :: "jsval list \<Rightarrow> rat" where
  "spec_count lines = (\<Sum>x\<leftarrow>lines. field_number x ''qty'')"

section \<open>The checkout row\<close>

text \<open>
  \<open>escapeHtml\<close> replaces each of the five characters \<open>&\<close>, \<open><\<close>, \<open>>\<close>, double quote
  (code 0x22) and single quote (code 0x27) by its entity; \<open>escapeAttr\<close> then replaces
  double quotes again.
\<close>

definition escape_map :: "char \<Rightarrow> string" where
  "escape_map m =
     (if m = CHR ''&'' then ''&amp;''
      else if m = CHR ''<'' then ''&lt;''
      else if m = CHR ''>'' then ''&gt;''
      else if m = CHR 0x22 then ''&quot;''
      else if m = CHR 0x27 then ''&#039;''
      else [m])"

definition escapeHtml :: "jsval \<Rightarrow> string" where
  "escapeHtml s = concat (map escape_map (to_string (js_or s (JStr []))))"

definition escapeAttr :: "jsval \<Rightarrow> string" where
  "escapeAttr s = concat (map (\<lambda>c. if c = CHR 0x22 then ''&quot;'' else [c]) (escapeHtml s))"

text \<open>
  The markup of one row, as \<open>renderCheckout\<close> assigns it to \<open>row.innerHTML\<close>:
  \<open>Fixed k\<close> is the \<open>k\<close>-th piece of fixed text of the template, \<open>Inserted t\<close> a text
  that the template computes from the line. In the template's order these are the name,
  the price, the quantity (the value of the quantity input), the line's subtotal and
  the note (the value of the note input).
\<close>

datatype piece = Fixed nat | Inserted string

definition render_row :: "jsval \<Rightarrow> error + piece list" where
  "render_row line =
     (case get_prop line ''name'' of
        Inl e \<Rightarrow> Inl e
      | Inr name \<Rightarrow>
          (case get_prop line ''price'' of
             Inl e \<Rightarrow> Inl e
           | Inr price \<Rightarrow>
               (case get_prop line ''qty'' of
                  Inl e \<Rightarrow> Inl e
                | Inr qty \<Rightarrow>
                    (case get_prop line ''note'' of
                       Inl e \<Rightarrow> Inl e
                     | Inr note \<Rightarrow>
                         Inr [Fixed 0, Inserted (escapeHtml name),
                              Fixed 1, Inserted (toFixed2 (to_number price)),
                              Fixed 2, Inserted (to_string qty),
                              Fixed 3, Inserted (toFixed2 (num_mul (to_number price) (to_number qty))),
                              Fixed 4, Inserted (escapeAttr (js_or note (JStr []))),
                              Fixed 5]))))"

text \<open>A text without the characters that open or close a tag or an attribute value.\<close>

definition markup_free :: "string \<Rightarrow> bool" where
  "markup_free s = list_all (\<lambda>c. c \<notin> set [CHR ''<'', CHR ''>'', CHR 0x22, CHR 0x27]) s"

section \<open>The offline cache\<close>

text \<open>
  The service worker's \<open>fetch\<close> listener. \<open>caches_match\<close> is the cache as
  \<open>caches.match(req)\<close> reads it (\<open>None\<close> is \<open>undefined\<close>), \<open>net\<close> what
  \<open>fetch(req)\<close> does for each request: it resolves with a response or rejects. The
  listener either returns without calling \<open>respondWith\<close>, so that the browser handles
  the request, or responds; the second component lists the requests it sent to the
  network.
\<close>

record request =
  req_method :: string
  req_url :: string

datatype 'r fetched = Resolved 'r | Rejected

datatype 'r handled = PassedThrough | RespondedWith "'r option"

definition fetch_listener ::
  "(request \<Rightarrow> 'r option) \<Rightarrow> (request \<Rightarrow> 'r fetched) \<Rightarrow> request \<Rightarrow> 'r handled \<times> request list" where
  "fetch_listener caches_match net req =
     (if req_method req \<noteq> ''GET'' then (PassedThrough, [])
      else (case caches_match req of
              Some cached \<Rightarrow> (RespondedWith (Some cached), [])
            | None \<Rightarrow>
                (case net req of
                   Resolved r \<Rightarrow> (RespondedWith (Some r), [req])
                 | Rejected \<Rightarrow> (RespondedWith (caches_match req), [req]))))"

section \<open>Confirming a payment\<close>

text \<open>
  The staff page holds its elements by id, the alerts shown so far and the requests
  sent. Of an element the model keeps the text, the class tokens, the \<open>disabled\<close>
  flag and \<open>dataset.oldText\<close>. The source's texts outside ASCII are written as the bytes
  of their UTF-8 encoding.
\<close>

record element =
  textContent :: string
  classList :: "string list"
  disabled :: bool
  oldText :: "string option"

record staff_page =
  elements :: "string \<rightharpoonup> element"
  alerts :: "string list"
  posted :: "string list"







definition update_element :: "string \<Rightarrow> (element \<Rightarrow> element) \<Rightarrow> staff_page \<Rightarrow> staff_page" where
  "update_element i f st =
     (case elements st i of
        None \<Rightarrow> st
      | Some el \<Rightarrow> st\<lparr>elements := (elements st)(i \<mapsto> f el)\<rparr>)"





text \<open>
  The calls whose arguments are as the checkout page passes them: the quantity given to
  \<open>setQty\<close> is one in which \<open>parseInt\<close> finds a number, and the note given to
  \<open>setNote\<close> is a string, or falsy.
\<close>

fun tame :: "cart_op \<Rightarrow> bool" where
  "tame (SetQty i q) = (parseInt (js_or q (jnum 1)) \<noteq> NaN)"
| "tame (SetNote i n) = is_str (js_or n (JStr []))"
| "tame c = True"

text \<open>What the calls keep, when their arguments are tame.\<close>

definition cart_inv :: "page \<Rightarrow> bool" where
  "cart_inv st = (is_json (load st) \<and> cart_ok st)"

section \<open>Properties of the cart\<close>

subsection \<open>What \<open>syncUI\<close> leaves alone\<close>

lemma sync_count_frame:
  "sync_count st = Inr st1 \<Longrightarrow>
     key st1 = key st \<and> storage st1 = storage st \<and> cartTotal st1 = cartTotal st"
  by (auto simp: sync_count_def split: if_splits sum.splits)

lemma sync_total_frame:
  "sync_total st = Inr st1 \<Longrightarrow>
     key st1 = key st \<and> storage st1 = storage st \<and> cartCount st1 = cartCount st"
  by (auto simp: sync_total_def split: if_splits sum.splits)

lemma key_syncUI [simp]: "key (snd (syncUI st)) = key st"
  by (auto simp: syncUI_def split: sum.splits dest!: sync_count_frame sync_total_frame)

lemma storage_syncUI [simp]: "storage (snd (syncUI st)) = storage st"
  by (auto simp: syncUI_def split: sum.splits dest!: sync_count_frame sync_total_frame)

lemma load_syncUI [simp]: "load (snd (syncUI st)) = load st"
  by (simp add: load_def storage_key_def)

lemma syncUI_ok: "count st = Inr c \<Longrightarrow> total_cart st = Inr t \<Longrightarrow> fst (syncUI st) = None"
  by (simp add: syncUI_def sync_count_def sync_total_def total_cart_def count_def load_def
      storage_key_def)

lemma total_empty: "load st = JArr [] \<Longrightarrow> total_cart st = Inr (Fin 0)"
  by (simp add: total_cart_def as_array_def)

lemma count_empty: "load st = JArr [] \<Longrightarrow> count st = Inr (Fin 0)"
  by (simp add: count_def as_array_def)

lemma load_removed [simp]:
  "load (st\<lparr>storage := (storage st)(storage_key st := None)\<rparr>) = JArr []"
  by (simp add: load_def storage_key_def)

subsection \<open>Quantities that are not numbers\<close>

text \<open>
  Claim C1 says that \<open>setQty\<close> parses the quantity and clamps it to at least 1, so that
  a text that is not a number, such as \<open>abc\<close>, leaves the quantity 1, and that
  \<open>setQty\<close> never throws. The code does not clamp such a text: on a cart that holds the
  item \<open>A\<close>, \<open>setQty("A", "abc")\<close> computes \<open>Math.max(1, NaN)\<close>, which is \<open>NaN\<close>,
  throws nothing, and stores the quantity as \<open>null\<close>.
\<close>

theorem setQty_abc_stores_null:
  "math_max (Fin 1) (parseInt (js_or (JStr ''abc'') (jnum 1))) = NaN \<and>
   fst (setQty (JStr ''A'') (JStr ''abc'')
          (snd (add (JStr ''A'') (JStr ''Pad Thai'') (jnum 60) (empty_page None None)))) = None \<and>
   getLines (snd (setQty (JStr ''A'') (JStr ''abc'')
          (snd (add (JStr ''A'') (JStr ''Pad Thai'') (jnum 60) (empty_page None None))))) =
     JArr [JObj [(''menu_item_id'', JStr ''A''), (''name'', JStr ''Pad Thai''),
                 (''price'', jnum 60), (''qty'', JNull), (''note'', JStr [])]]"
  by code_simp

text \<open>
  Claim C2 says that after every call of a sequence of \<open>add\<close>, \<open>remove\<close>, \<open>setQty\<close>
  and \<open>setNote\<close> from the empty cart every line has a quantity of at least 1 and a
  note of at most 300 characters. The code breaks this after two calls:
  \<open>add("A", "Pad Thai", 60)\<close> and then \<open>setQty("A", "abc")\<close> leave a line whose
  quantity is \<open>null\<close>.
\<close>

theorem add_setQty_abc_breaks_invariant:
  "\<not> cart_ok (run [Add (JStr ''A'') (JStr ''Pad Thai'') (jnum 60),
                     SetQty (JStr ''A'') (JStr ''abc'')]
                (empty_page None None))"
  by code_simp

subsection \<open>Clearing the cart\<close>

text \<open>
  Claim C9: for every page, \<open>clear()\<close> throws nothing, and after it \<open>getLines()\<close>
  returns the empty array, \<open>total()\<close> returns 0 and \<open>count()\<close> returns 0.
\<close>

theorem clear_then_empty:
  "fst (clear st) = None \<and>
   getLines (snd (clear st)) = JArr [] \<and>
   total_cart (snd (clear st)) = Inr (Fin 0) \<and>
   count (snd (clear st)) = Inr (Fin 0)"
  by (simp add: clear_def getLines_def total_empty count_empty
      syncUI_ok [OF count_empty total_empty])

subsection \<open>The cart touches only its own entry\<close>

lemma storage_key_set_entry [simp]: "storage_key (set_entry k v st) = storage_key st"
  by (simp add: storage_key_def set_entry_def)

lemma load_set_entry [simp]: "k \<noteq> storage_key st \<Longrightarrow> load (set_entry k v st) = load st"
  by (simp add: load_def set_entry_def storage_key_def)

lemma count_set_entry [simp]: "k \<noteq> storage_key st \<Longrightarrow> count (set_entry k v st) = count st"
  by (simp add: count_def)

lemma total_set_entry [simp]: "k \<noteq> storage_key st \<Longrightarrow> total_cart (set_entry k v st) = total_cart st"
  by (simp add: total_cart_def)

lemma cartCount_set_entry [simp]: "cartCount (set_entry k v st) = cartCount st"
  by (simp add: set_entry_def)

lemma cartTotal_set_entry [simp]: "cartTotal (set_entry k v st) = cartTotal st"
  by (simp add: set_entry_def)

lemma key_set_entry [simp]: "key (set_entry k v st) = key st"
  by (simp add: set_entry_def)

lemma sync_count_set_entry:
  "k \<noteq> storage_key st \<Longrightarrow>
     sync_count (set_entry k v st) = map_sum id (set_entry k v) (sync_count st)"
  by (simp add: sync_count_def split: sum.splits) (simp add: set_entry_def)

lemma sync_total_set_entry:
  "k \<noteq> storage_key st \<Longrightarrow>
     sync_total (set_entry k v st) = map_sum id (set_entry k v) (sync_total st)"
  by (simp add: sync_total_def split: sum.splits) (simp add: set_entry_def)

lemma storage_key_sync_count: "sync_count st = Inr st1 \<Longrightarrow> storage_key st1 = storage_key st"
  by (auto simp: sync_count_def storage_key_def split: if_splits sum.splits)

lemma syncUI_set_entry:
  "k \<noteq> storage_key st \<Longrightarrow>
     syncUI (set_entry k v st) = (fst (syncUI st), set_entry k v (snd (syncUI st)))"
  by (auto simp: syncUI_def sync_count_set_entry sync_total_set_entry storage_key_sync_count
      split: sum.splits)

lemma set_entry_own_twist:
  "k \<noteq> storage_key st \<Longrightarrow>
     (set_entry k v st)\<lparr>storage := (storage (set_entry k v st))(storage_key st := w)\<rparr> =
     set_entry k v (st\<lparr>storage := (storage st)(storage_key st := w)\<rparr>)"
  by (simp add: set_entry_def fun_upd_twist)

lemma storage_key_storage_update [simp]: "storage_key (st\<lparr>storage := m\<rparr>) = storage_key st"
  by (simp add: storage_key_def)

lemma save_set_entry:
  "k \<noteq> storage_key st \<Longrightarrow>
     save lines (set_entry k v st) = (fst (save lines st), set_entry k v (snd (save lines st)))"
  by (simp add: save_def set_entry_own_twist syncUI_set_entry)

lemma clear_set_entry:
  "k \<noteq> storage_key st \<Longrightarrow>
     clear (set_entry k v st) = (fst (clear st), set_entry k v (snd (clear st)))"
  by (simp add: clear_def set_entry_own_twist syncUI_set_entry)

lemma add_set_entry:
  "k \<noteq> storage_key st \<Longrightarrow>
     add i n p (set_entry k v st) = (fst (add i n p st), set_entry k v (snd (add i n p st)))"
  by (simp add: add_def save_set_entry split: sum.splits option.splits)

lemma remove_set_entry:
  "k \<noteq> storage_key st \<Longrightarrow>
     remove i (set_entry k v st) = (fst (remove i st), set_entry k v (snd (remove i st)))"
  by (simp add: remove_def save_set_entry split: sum.splits option.splits)

lemma setQty_set_entry:
  "k \<noteq> storage_key st \<Longrightarrow>
     setQty i q (set_entry k v st) = (fst (setQty i q st), set_entry k v (snd (setQty i q st)))"
  by (simp add: setQty_def save_set_entry split: sum.splits option.splits)

lemma setNote_set_entry:
  "k \<noteq> storage_key st \<Longrightarrow>
     setNote i n (set_entry k v st) = (fst (setNote i n st), set_entry k v (snd (setNote i n st)))"
  by (simp add: setNote_def save_set_entry split: sum.splits option.splits)

lemma exec_set_entry:
  "k \<noteq> storage_key st \<Longrightarrow>
     exec c (set_entry k v st) = (fst (exec c st), set_entry k v (snd (exec c st)))"
  by (cases c)
     (simp_all add: returned_def add_set_entry remove_set_entry setQty_set_entry
        setNote_set_entry clear_set_entry getLines_def)


lemma key_save [simp]: "key (snd (save lines st)) = key st"
  by (simp add: save_def)

lemma storage_save [simp]:
  "storage (snd (save lines st)) = (storage st)(storage_key st \<mapsto> Json (json_norm (JArr lines)))"
  by (simp add: save_def)

lemma exec_key [simp]: "key (snd (exec c st)) = key st"
  by (cases c)
     (simp_all add: returned_def add_def remove_def setQty_def setNote_def clear_def
        split: sum.splits option.splits)

lemma exec_other_entry:
  "k \<noteq> storage_key st \<Longrightarrow> storage (snd (exec c st)) k = storage st k"
  by (cases c)
     (simp_all add: returned_def add_def remove_def setQty_def setNote_def clear_def
        split: sum.splits option.splits)

lemma storage_key_init:
  "storage_key (snd (init t cu st)) =
     ''cart:'' @ to_string t @ '':'' @ to_string (js_or cu (JStr ''anon''))"
  by (simp add: init_def storage_key_def)

lemma storage_init: "storage (snd (init t cu st)) = storage st"
  by (simp add: init_def)

text \<open>
  Claim C10: every operation of the cart reads and writes only the entry of the storage
  at the cart's key. For an entry at any other key \<open>k\<close>: the operation leaves it as
  it is; the operation leaves the key as it is; and whatever is written to \<open>k\<close>
  before the call, the call returns or throws the same and does the same to the page.
  \<open>init\<close> writes nothing to the storage and sets the key to
  \<open>cart:<table_token>:<customer_id or anon>\<close>.
\<close>

theorem cart_ops_touch_only_own_entry:
  assumes "k \<noteq> storage_key st"
  shows "storage (snd (exec c st)) k = storage st k \<and>
         key (snd (exec c st)) = key st \<and>
         exec c (set_entry k v st) = (fst (exec c st), set_entry k v (snd (exec c st))) \<and>
         storage (snd (init t cu st)) = storage st \<and>
         storage_key (snd (init t cu st)) =
           ''cart:'' @ to_string t @ '':'' @ to_string (js_or cu (JStr ''anon''))"
  using assms
  by (simp add: exec_other_entry exec_set_entry storage_key_init storage_init)

theorem cart_ops_touch_only_own_entry_witness:
  "''cart:T2:7'' \<noteq> storage_key
      (snd (init (JStr ''T1'') JUndef
       (set_entry ''cart:T2:7'' (Some (Json (JArr [JObj [(''menu_item_id'', JStr ''B'')]])))
          (empty_page None None)))) \<and>
   storage (snd (exec (Add (JStr ''A'') (JStr ''Pad Thai'') (jnum 60))
      (snd (init (JStr ''T1'') JUndef
       (set_entry ''cart:T2:7'' (Some (Json (JArr [JObj [(''menu_item_id'', JStr ''B'')]])))
          (empty_page None None)))))) ''cart:T2:7'' =
     Some (Json (JArr [JObj [(''menu_item_id'', JStr ''B'')]])) \<and>
   storage_key (snd (init (JStr ''T1'') JUndef (empty_page None None))) = ''cart:T1:anon''"
proof -
  let ?st = "snd (init (JStr ''T1'') JUndef
       (set_entry ''cart:T2:7'' (Some (Json (JArr [JObj [(''menu_item_id'', JStr ''B'')]])))
          (empty_page None None)))"
  have h: "''cart:T2:7'' \<noteq> storage_key ?st"
    by (simp add: storage_key_init js_or_def)
  have s: "storage ?st ''cart:T2:7'' = Some (Json (JArr [JObj [(''menu_item_id'', JStr ''B'')]]))"
    by (simp add: storage_init set_entry_def)
  have i: "storage_key (snd (init (JStr ''T1'') JUndef (empty_page None None))) = ''cart:T1:anon''"
    by (simp add: storage_key_init js_or_def)
  from cart_ops_touch_only_own_entry [OF h]
  have "storage (snd (exec (Add (JStr ''A'') (JStr ''Pad Thai'') (jnum 60)) ?st)) ''cart:T2:7'' =
        storage ?st ''cart:T2:7''"
    by blast
  with h s i show ?thesis by simp
qed


subsection \<open>The cart depends on the stored text only through what \<open>_load\<close> reads\<close>

lemma storage_key_eq: "key st = key st' \<Longrightarrow> storage_key st = storage_key st'"
  by (simp add: storage_key_def)

lemma count_eq: "load st = load st' \<Longrightarrow> count st = count st'"
  by (simp add: count_def)

lemma total_eq: "load st = load st' \<Longrightarrow> total_cart st = total_cart st'"
  by (simp add: total_cart_def)

lemma load_cartCount_update [simp]: "load (st\<lparr>cartCount := x\<rparr>) = load st"
  by (simp add: load_def storage_key_def)

lemma load_cartTotal_update [simp]: "load (st\<lparr>cartTotal := x\<rparr>) = load st"
  by (simp add: load_def storage_key_def)

lemma same_cart_refl [simp]: "same_cart st st"
  by (simp add: same_cart_def)

lemma sync_count_same:
  assumes "same_cart st st'"
  shows "(case sync_count st of
            Inl e \<Rightarrow> sync_count st' = Inl e
          | Inr s \<Rightarrow> (\<exists>s'. sync_count st' = Inr s' \<and> same_cart s s'))"
  using assms count_eq [of st st']
  by (auto simp: sync_count_def same_cart_def storage_key_def split: sum.splits)

lemma sync_total_same:
  assumes "same_cart st st'"
  shows "(case sync_total st of
            Inl e \<Rightarrow> sync_total st' = Inl e
          | Inr s \<Rightarrow> (\<exists>s'. sync_total st' = Inr s' \<and> same_cart s s'))"
  using assms total_eq [of st st']
  by (auto simp: sync_total_def same_cart_def storage_key_def split: sum.splits)

lemma syncUI_same:
  assumes "same_cart st st'"
  shows "fst (syncUI st) = fst (syncUI st') \<and> same_cart (snd (syncUI st)) (snd (syncUI st'))"
proof (cases "sync_count st")
  case (Inl e)
  with sync_count_same [OF assms] show ?thesis
    using assms by (simp add: syncUI_def)
next
  case (Inr s)
  with sync_count_same [OF assms] obtain s' where s': "sync_count st' = Inr s'" "same_cart s s'"
    by auto
  from sync_total_same [OF s'(2)] show ?thesis
    using Inr s' by (auto simp: syncUI_def split: sum.splits)
qed

lemma save_same:
  assumes "same_cart st st'"
  shows "fst (save l st) = fst (save l st') \<and> same_cart (snd (save l st)) (snd (save l st'))"
proof -
  have "same_cart (st\<lparr>storage := (storage st)(storage_key st \<mapsto> Json (json_norm (JArr l)))\<rparr>)
          (st'\<lparr>storage := (storage st')(storage_key st' \<mapsto> Json (json_norm (JArr l)))\<rparr>)"
    using assms by (simp add: same_cart_def load_def storage_key_def)
  then show ?thesis
    unfolding save_def by (rule syncUI_same)
qed

lemma clear_same:
  assumes "same_cart st st'"
  shows "fst (clear st) = fst (clear st') \<and> same_cart (snd (clear st)) (snd (clear st'))"
proof -
  have "same_cart (st\<lparr>storage := (storage st)(storage_key st := None)\<rparr>)
          (st'\<lparr>storage := (storage st')(storage_key st' := None)\<rparr>)"
    using assms by (simp add: same_cart_def load_def storage_key_def)
  then show ?thesis
    unfolding clear_def by (rule syncUI_same)
qed

lemma add_same:
  assumes "same_cart st st'"
  shows "fst (add i n p st) = fst (add i n p st') \<and> same_cart (snd (add i n p st)) (snd (add i n p st'))"
proof -
  have l: "load st' = load st" using assms by (simp add: same_cart_def)
  show ?thesis
    using assms save_same [OF assms]
    by (simp add: add_def l split: sum.splits option.splits)
qed

lemma remove_same:
  assumes "same_cart st st'"
  shows "fst (remove i st) = fst (remove i st') \<and> same_cart (snd (remove i st)) (snd (remove i st'))"
proof -
  have l: "load st' = load st" using assms by (simp add: same_cart_def)
  show ?thesis
    using assms save_same [OF assms]
    by (simp add: remove_def l split: sum.splits option.splits)
qed

lemma setQty_same:
  assumes "same_cart st st'"
  shows "fst (setQty i q st) = fst (setQty i q st') \<and> same_cart (snd (setQty i q st)) (snd (setQty i q st'))"
proof -
  have l: "load st' = load st" using assms by (simp add: same_cart_def)
  show ?thesis
    using assms save_same [OF assms]
    by (simp add: setQty_def l split: sum.splits option.splits)
qed

lemma setNote_same:
  assumes "same_cart st st'"
  shows "fst (setNote i n st) = fst (setNote i n st') \<and> same_cart (snd (setNote i n st)) (snd (setNote i n st'))"
proof -
  have l: "load st' = load st" using assms by (simp add: same_cart_def)
  show ?thesis
    using assms save_same [OF assms]
    by (simp add: setNote_def l split: sum.splits option.splits)
qed

lemma exec_same:
  assumes "same_cart st st'"
  shows "fst (exec c st) = fst (exec c st') \<and> same_cart (snd (exec c st)) (snd (exec c st'))"
proof -
  have l: "load st' = load st" using assms by (simp add: same_cart_def)
  show ?thesis
    using assms add_same [OF assms] remove_same [OF assms] setQty_same [OF assms]
      setNote_same [OF assms] clear_same [OF assms] count_eq [OF l] total_eq [OF l]
    by (cases c) (simp_all add: returned_def getLines_def l)
qed

lemma outcomes_same: "same_cart st st' \<Longrightarrow> outcomes cs st = outcomes cs st'"
proof (induction cs arbitrary: st st')
  case Nil
  show ?case by simp
next
  case (Cons c cs)
  from exec_same [OF Cons.prems, of c] Cons.IH show ?case by simp
qed

lemma run_same: "same_cart st st' \<Longrightarrow> same_cart (run cs st) (run cs st')"
proof (induction cs arbitrary: st st')
  case Nil
  then show ?case by simp
next
  case (Cons c cs)
  from exec_same [OF Cons.prems, of c] Cons.IH show ?case by simp
qed

lemma get_prop_defined:
  "x \<noteq> JNull \<Longrightarrow> x \<noteq> JUndef \<Longrightarrow> \<exists>v. get_prop x f = Inr v"
  by (cases x) simp_all

lemma or_zero_Fin: "or_zero n = Fin (case n of NaN \<Rightarrow> 0 | Fin r \<Rightarrow> r)"
  by (cases n) (simp_all add: or_zero_def)

lemma reduce_total_sum:
  "\<forall>x \<in> set xs. x \<noteq> JNull \<and> x \<noteq> JUndef \<Longrightarrow>
     reduce_total (Fin s) xs = Inr (Fin (s + spec_total xs))"
proof (induction xs arbitrary: s)
  case Nil
  show ?case by (simp add: spec_total_def)
next
  case (Cons x xs)
  from Cons.prems obtain p q where pq: "get_prop x ''price'' = Inr p" "get_prop x ''qty'' = Inr q"
    using get_prop_defined [of x] by (metis list.set_intros(1))
  have "reduce_total (Fin s) (x # xs) =
        reduce_total (Fin (s + field_number x ''price'' * field_number x ''qty'')) xs"
    by (simp add: pq or_zero_Fin field_number_def)
  also have "\<dots> = Inr (Fin (s + field_number x ''price'' * field_number x ''qty'' + spec_total xs))"
    using Cons.prems by (intro Cons.IH) simp
  finally show ?case by (simp add: spec_total_def add.assoc)
qed

lemma reduce_count_sum:
  "\<forall>x \<in> set xs. x \<noteq> JNull \<and> x \<noteq> JUndef \<Longrightarrow>
     reduce_count (Fin s) xs = Inr (Fin (s + spec_count xs))"
proof (induction xs arbitrary: s)
  case Nil
  show ?case by (simp add: spec_count_def)
next
  case (Cons x xs)
  from Cons.prems obtain q where q: "get_prop x ''qty'' = Inr q"
    using get_prop_defined [of x] by (metis list.set_intros(1))
  have "reduce_count (Fin s) (x # xs) = reduce_count (Fin (s + field_number x ''qty'')) xs"
    by (simp add: q or_zero_Fin field_number_def)
  also have "\<dots> = Inr (Fin (s + field_number x ''qty'' + spec_count xs))"
    using Cons.prems by (intro Cons.IH) simp
  finally show ?case by (simp add: spec_count_def add.assoc)
qed


subsection \<open>Total and count\<close>

lemma total_sum:
  "load st = JArr lines \<Longrightarrow> \<forall>x \<in> set lines. x \<noteq> JNull \<and> x \<noteq> JUndef \<Longrightarrow>
     total_cart st = Inr (Fin (spec_total lines))"
  using reduce_total_sum [of lines 0] by (simp add: total_cart_def as_array_def)

lemma count_sum:
  "load st = JArr lines \<Longrightarrow> \<forall>x \<in> set lines. x \<noteq> JNull \<and> x \<noteq> JUndef \<Longrightarrow>
     count st = Inr (Fin (spec_count lines))"
  using reduce_count_sum [of lines 0] by (simp add: count_def as_array_def)




subsection \<open>A stored text that does not parse\<close>

lemma json_norm_not_undef [simp]: "json_norm v \<noteq> JUndef"
  by (cases v rule: json_norm.cases) simp_all

lemma load_save [simp]: "load (snd (save l st)) = JArr (map json_norm l)"
  by (simp add: load_def storage_key_def)

lemma save_ok:
  assumes "\<forall>x \<in> set l. json_norm x \<noteq> JNull"
  shows "fst (save l st) = None"
proof -
  let ?s = "st\<lparr>storage := (storage st)(storage_key st \<mapsto> Json (json_norm (JArr l)))\<rparr>"
  have l: "load ?s = JArr (map json_norm l)"
    by (simp add: load_def storage_key_def)
  have n: "\<forall>x \<in> set (map json_norm l). x \<noteq> JNull \<and> x \<noteq> JUndef"
    using assms by simp
  show ?thesis
    unfolding save_def by (rule syncUI_ok [OF count_sum [OF l n] total_sum [OF l n]])
qed

lemma exec_empty_ok:
  assumes "load st = JArr []"
  shows "\<not> threw (fst (exec c st))"
proof (cases c)
  case (Add i n p)
  have "fst (save [new_line i n p] st) = None"
    by (rule save_ok) (simp add: new_line_def)
  then show ?thesis
    using assms Add by (simp add: returned_def add_def as_array_def threw_def)
next
  case (Remove i)
  have "fst (save [] st) = None"
    by (rule save_ok) simp
  then show ?thesis
    using assms Remove by (simp add: returned_def remove_def as_array_def threw_def)
next
  case (SetQty i q)
  then show ?thesis
    using assms by (simp add: returned_def setQty_def as_array_def threw_def)
next
  case (SetNote i n)
  then show ?thesis
    using assms by (simp add: returned_def setNote_def as_array_def threw_def)
next
  case Clear
  have "fst (clear st) = None"
    by (simp add: clear_def syncUI_ok [OF count_empty total_empty])
  then show ?thesis
    using Clear by (simp add: returned_def threw_def)
next
  case GetLines
  then show ?thesis by (simp add: threw_def)
next
  case Total
  then show ?thesis using total_empty [OF assms] by (simp add: threw_def as_value_def)
next
  case Count
  then show ?thesis using count_empty [OF assms] by (simp add: threw_def as_value_def)
qed

lemma unparsable_same_cart:
  assumes "storage st (storage_key st) = Some Unparsable"
      and "e = None \<or> e = Some (Json (JArr []))"
  shows "same_cart st (set_entry (storage_key st) e st)"
  using assms by (auto simp: same_cart_def load_def set_entry_def storage_key_def)

text \<open>
  Claim C5: if the text stored at the cart's key does not parse as JSON, then
  \<open>getLines()\<close> returns the empty array, no operation of the cart throws, and the page
  behaves as with an empty cart (no entry, or the entry \<open>[]\<close>): every sequence of
  calls returns the same, call by call, and leaves pages that show the same cart.
\<close>

theorem unparsable_is_empty_cart:
  assumes "storage st (storage_key st) = Some Unparsable"
      and "e = None \<or> e = Some (Json (JArr []))"
  shows "getLines st = JArr [] \<and>
         \<not> threw (fst (exec c st)) \<and>
         outcomes cs st = outcomes cs (set_entry (storage_key st) e st) \<and>
         same_cart (run cs st) (run cs (set_entry (storage_key st) e st))"
proof -
  have l: "load st = JArr []"
    using assms(1) by (simp add: load_def)
  from unparsable_same_cart [OF assms] l show ?thesis
    by (simp add: getLines_def exec_empty_ok outcomes_same run_same)
qed

theorem unparsable_is_empty_cart_witness:
  "storage (set_entry ''null'' (Some Unparsable) (empty_page (Some ''0'') (Some ''0.00'')))
     (storage_key (set_entry ''null'' (Some Unparsable) (empty_page (Some ''0'') (Some ''0.00'')))) =
     Some Unparsable \<and>
   getLines (set_entry ''null'' (Some Unparsable) (empty_page (Some ''0'') (Some ''0.00''))) = JArr [] \<and>
   outcomes [SetQty (JStr ''A'') (jnum 2), Add (JStr ''A'') (JStr ''Pad Thai'') (jnum 60), Total, Count, GetLines]
     (set_entry ''null'' (Some Unparsable) (empty_page (Some ''0'') (Some ''0.00''))) =
     [Inr JUndef, Inr JUndef, Inr (jnum 60), Inr (jnum 1),
      Inr (JArr [JObj [(''menu_item_id'', JStr ''A''), (''name'', JStr ''Pad Thai''),
                 (''price'', jnum 60), (''qty'', jnum 1), (''note'', JStr [])]])]"
proof -
  let ?st = "set_entry ''null'' (Some Unparsable) (empty_page (Some ''0'') (Some ''0.00''))"
  let ?cs = "[SetQty (JStr ''A'') (jnum 2), Add (JStr ''A'') (JStr ''Pad Thai'') (jnum 60), Total, Count, GetLines]"
  have k: "storage_key ?st = ''null''"
    by (simp add: storage_key_def set_entry_def empty_page_def)
  have h: "storage ?st (storage_key ?st) = Some Unparsable"
    by (simp add: storage_key_def set_entry_def empty_page_def)
  have e: "outcomes ?cs (set_entry ''null'' None ?st) =
     [Inr JUndef, Inr JUndef, Inr (jnum 60), Inr (jnum 1),
      Inr (JArr [JObj [(''menu_item_id'', JStr ''A''), (''name'', JStr ''Pad Thai''),
                 (''price'', jnum 60), (''qty'', jnum 1), (''note'', JStr [])]])]"
    by code_simp
  have d: "(None :: stored option) = None \<or> None = Some (Json (JArr []))"
    by simp
  note t = unparsable_is_empty_cart [OF h d, where cs = ?cs, unfolded k]
  from t have g: "getLines ?st = JArr []"
    by (rule conjunct1)
  from t have o: "outcomes ?cs ?st = outcomes ?cs (set_entry ''null'' None ?st)"
    by blast
  from h g o e show ?thesis
    by (simp only: simp_thms)
qed


subsection \<open>Adding an item\<close>

lemma json_norm_id: "is_json v \<Longrightarrow> json_norm v = v"
proof (induction v rule: json_norm.induct)
  case (3 xs)
  then show ?case by (simp add: list_all_iff map_idI)
next
  case (4 ps)
  have f: "filter (\<lambda>p. snd p \<noteq> JUndef) ps = ps"
    using 4 by (auto simp: list_all_iff filter_id_conv)
  show ?case
    using 4 by (simp add: f list_all_iff map_idI)
qed simp_all

lemma find_line_Some:
  "find_line xs i = Inr (Some n) \<Longrightarrow>
     n < length xs \<and> (\<exists>v. get_prop (xs ! n) ''menu_item_id'' = Inr v \<and> strict_eq v i)"
proof (induction xs arbitrary: n)
  case Nil
  then show ?case by simp
next
  case (Cons x xs)
  then show ?case
    by (cases n) (auto split: sum.splits if_splits option.splits)
qed

lemma is_json_update:
  "list_all (\<lambda>p. is_json (snd p)) ps \<Longrightarrow> is_json v \<Longrightarrow>
     list_all (\<lambda>p. is_json (snd p)) (AList.update f v ps)"
  by (induction ps) auto

lemma is_json_set_prop: "is_json x \<Longrightarrow> is_json v \<Longrightarrow> is_json (set_prop x f v)"
  by (cases x) (simp_all add: is_json_update)



lemma set_prop_not_null: "x \<noteq> JNull \<Longrightarrow> set_prop x f v \<noteq> JNull"
  by (cases x) simp_all






lemma find_line_first_match:
  "find_line xs i = Inr (Some n) \<Longrightarrow> m < n \<Longrightarrow>
     \<exists>v. get_prop (xs ! m) ''menu_item_id'' = Inr v \<and> \<not> strict_eq v i"
proof (induction xs arbitrary: n m)
  case Nil
  then show ?case by simp
next
  case (Cons x xs)
  then show ?case
    by (cases n; cases m) (auto split: sum.splits if_splits option.splits)
qed

lemma find_line_None:
  "find_line xs i = Inr None \<Longrightarrow> x \<in> set xs \<Longrightarrow>
     \<exists>v. get_prop x ''menu_item_id'' = Inr v \<and> \<not> strict_eq v i"
  by (induction xs) (auto split: sum.splits if_splits option.splits)




subsection \<open>Quantities in which \<open>parseInt\<close> finds a number\<close>

text \<open>
  Where \<open>parseInt\<close> finds a number, the cart does what claims C1 and C2 say: from
  the empty cart, every sequence of calls with tame arguments leaves lines with a
  quantity of at least 1 and a note of at most 300 code units, and \<open>setQty\<close> sets the
  quantity to the number found, or to 1 if that is larger.
\<close>

lemma is_json_json_norm [simp]: "is_json (json_norm v)"
  by (induction v rule: json_norm.induct) (auto simp: list_all_iff)

lemma line_ok_obj: "line_ok x \<Longrightarrow> \<exists>ps. x = JObj ps"
  by (cases x) (simp_all add: line_ok_def)

lemma line_ok_qty: "line_ok x \<Longrightarrow> \<exists>q. get_prop x ''qty'' = Inr (jnum q) \<and> 1 \<le> q"
  by (cases x) (auto simp: line_ok_def split: option.splits jsval.splits jsnum.splits)

lemma line_ok_set_qty: "line_ok x \<Longrightarrow> 1 \<le> q \<Longrightarrow> line_ok (set_prop x ''qty'' (jnum q))"
  by (cases x) (auto simp: line_ok_def update_conv' split: option.splits jsval.splits jsnum.splits)

lemma line_ok_set_note:
  "line_ok x \<Longrightarrow> length s \<le> 300 \<Longrightarrow> line_ok (set_prop x ''note'' (JStr s))"
  by (cases x) (auto simp: line_ok_def update_conv' split: option.splits jsval.splits jsnum.splits)

lemma line_ok_new_line: "line_ok (json_norm (new_line i n p))"
  by (simp add: new_line_def line_ok_def)

lemma find_line_objs:
  "list_all line_ok xs \<Longrightarrow> \<exists>r. find_line xs i = Inr r \<and> (\<forall>k. r = Some k \<longrightarrow> k < length xs)"
proof (induction xs)
  case Nil
  then show ?case by simp
next
  case (Cons x xs)
  then obtain ps where "x = JObj ps" using line_ok_obj by auto
  with Cons show ?case by (auto split: option.splits)
qed

lemma filter_lines_objs:
  "list_all line_ok xs \<Longrightarrow> list_all is_json xs \<Longrightarrow>
     \<exists>ys. filter_lines xs i = Inr ys \<and> list_all line_ok ys \<and> list_all is_json ys"
proof (induction xs)
  case Nil
  then show ?case by simp
next
  case (Cons x xs)
  then obtain ps where "x = JObj ps" using line_ok_obj by auto
  with Cons show ?case by auto
qed

lemma inv_save:
  assumes "list_all is_json l" and "list_all line_ok l"
  shows "cart_inv (snd (save l st))"
  using assms by (simp add: cart_inv_def cart_ok_def list_all_iff json_norm_id map_idI)

lemma list_all_update: "list_all P xs \<Longrightarrow> P y \<Longrightarrow> list_all P (xs[k := y])"
  by (auto simp: list_all_iff dest!: set_update_subset_insert [THEN subsetD])

lemma inv_exec:
  assumes i: "cart_inv st" and t: "tame c"
  shows "cart_inv (snd (exec c st))"
proof -
  from i obtain xs where l: "load st = JArr xs" and j: "list_all is_json xs" and o: "list_all line_ok xs"
    by (auto simp: cart_inv_def cart_ok_def split: jsval.splits)
  show ?thesis
  proof (cases c)
    case (Add a n p)
    from find_line_objs [OF o, of a] obtain r where r: "find_line xs a = Inr r"
      and b: "\<forall>k. r = Some k \<longrightarrow> k < length xs" by blast
    show ?thesis
    proof (cases r)
      case None
      have "cart_inv (snd (save (xs @ [new_line a n p]) st))"
        using j o by (simp add: cart_inv_def cart_ok_def list_all_iff json_norm_id map_idI line_ok_new_line)
      then show ?thesis
        using Add l r None by (simp add: returned_def add_def as_array_def)
    next
      case (Some k)
      with b have k: "k < length xs" by simp
      then have ok: "line_ok (xs ! k)" and js: "is_json (xs ! k)"
        using o j by (simp_all add: list_all_length)
      from line_ok_obj [OF ok] have tr: "truthy (xs ! k)" by auto
      from line_ok_qty [OF ok] obtain q where q: "get_prop (xs ! k) ''qty'' = Inr (jnum q)" "1 \<le> q"
        by blast
      have "cart_inv (snd (save (xs[k := set_prop (xs ! k) ''qty'' (jnum (q + 1))]) st))"
        using j o ok js q(2)
        by (intro inv_save list_all_update) (simp_all add: is_json_set_prop line_ok_set_qty)
      then show ?thesis
        using Add l r Some tr q
        by (simp add: returned_def add_def as_array_def js_plus_def is_str_def)
    qed
  next
    case (Remove a)
    from filter_lines_objs [OF o j, of a] obtain ys where "filter_lines xs a = Inr ys"
      "list_all line_ok ys" "list_all is_json ys" by blast
    then show ?thesis
      using Remove l inv_save [of ys st] by (simp add: returned_def remove_def as_array_def)
  next
    case (SetQty a v)
    from find_line_objs [OF o, of a] obtain r where r: "find_line xs a = Inr r"
      and b: "\<forall>k. r = Some k \<longrightarrow> k < length xs" by blast
    show ?thesis
    proof (cases r)
      case None
      then show ?thesis
        using SetQty l r i by (simp add: returned_def setQty_def as_array_def)
    next
      case (Some k)
      with b have k: "k < length xs" by simp
      then have ok: "line_ok (xs ! k)" and js: "is_json (xs ! k)"
        using o j by (simp_all add: list_all_length)
      from line_ok_obj [OF ok] have tr: "truthy (xs ! k)" by auto
      from t SetQty obtain m where m: "parseInt (js_or v (jnum 1)) = Fin m"
        by (cases "parseInt (js_or v (jnum 1))") simp_all
      have "cart_inv (snd (save (xs[k := set_prop (xs ! k) ''qty'' (jnum (max 1 m))]) st))"
        using j o ok js
        by (intro inv_save list_all_update) (simp_all add: is_json_set_prop line_ok_set_qty)
      then show ?thesis
        using SetQty l r Some tr m by (simp add: returned_def setQty_def as_array_def)
    qed
  next
    case (SetNote a v)
    from find_line_objs [OF o, of a] obtain r where r: "find_line xs a = Inr r"
      and b: "\<forall>k. r = Some k \<longrightarrow> k < length xs" by blast
    show ?thesis
    proof (cases r)
      case None
      then show ?thesis
        using SetNote l r i by (simp add: returned_def setNote_def as_array_def)
    next
      case (Some k)
      with b have k: "k < length xs" by simp
      then have ok: "line_ok (xs ! k)" and js: "is_json (xs ! k)"
        using o j by (simp_all add: list_all_length)
      from line_ok_obj [OF ok] have tr: "truthy (xs ! k)" by auto
      from t SetNote obtain s where s: "js_or v (JStr []) = JStr s"
        by (cases "js_or v (JStr [])") (simp_all add: is_str_def)
      have "cart_inv (snd (save (xs[k := set_prop (xs ! k) ''note'' (JStr (take 300 s))]) st))"
        using j o ok js
        by (intro inv_save list_all_update) (simp_all add: is_json_set_prop line_ok_set_note)
      then show ?thesis
        using SetNote l r Some tr s by (simp add: returned_def setNote_def as_array_def slice300_def)
    qed
  next
    case Clear
    then show ?thesis
      by (simp add: returned_def clear_def cart_inv_def cart_ok_def)
  next
    case GetLines
    then show ?thesis using i by simp
  next
    case Total
    then show ?thesis using i by simp
  next
    case Count
    then show ?thesis using i by simp
  qed
qed

lemma inv_run: "cart_inv st \<Longrightarrow> list_all tame cs \<Longrightarrow> cart_inv (run cs st)"
  by (induction cs arbitrary: st) (simp_all add: inv_exec)

lemma cart_ok_when_quantities_parse:
  "list_all tame cs \<Longrightarrow> cart_ok (run cs (empty_page c t))"
proof -
  have "cart_inv (empty_page c t)"
    by (simp add: cart_inv_def cart_ok_def load_def empty_page_def)
  then show "list_all tame cs \<Longrightarrow> cart_ok (run cs (empty_page c t))"
    using inv_run [of "empty_page c t" cs] by (simp add: cart_inv_def)
qed


lemma setQty_clamps_parsed:
  assumes l: "load st = JArr lines"
      and j: "is_json (JArr lines)"
      and z: "JNull \<notin> set lines"
      and f: "find_line lines i = Inr (Some n)"
      and t: "truthy (lines ! n)"
      and p: "parseInt (js_or q (jnum 1)) = Fin k"
  shows "fst (setQty i q st) = None"
    and "getLines (snd (setQty i q st)) = JArr (lines[n := set_prop (lines ! n) ''qty'' (jnum (max 1 k))])"
proof -
  let ?new = "lines[n := set_prop (lines ! n) ''qty'' (jnum (max 1 k))]"
  from find_line_Some [OF f] have n: "n < length lines" by simp
  have a: "setQty i q st = save ?new st"
    using l f t p by (simp add: setQty_def as_array_def)
  have jn: "list_all is_json ?new"
    using j n by (intro list_all_update) (simp_all add: is_json_set_prop list_all_length)
  have nn: "\<forall>x \<in> set ?new. json_norm x \<noteq> JNull"
  proof
    fix x assume x: "x \<in> set ?new"
    then have "is_json x" using jn by (simp add: list_all_iff)
    moreover have "x \<noteq> JNull"
    proof
      assume "x = JNull"
      with x have "JNull \<in> insert (set_prop (lines ! n) ''qty'' (jnum (max 1 k))) (set lines)"
        using set_update_subset_insert [of lines n] by blast
      with z have "set_prop (lines ! n) ''qty'' (jnum (max 1 k)) = JNull" by auto
      moreover have "lines ! n \<noteq> JNull" using t by auto
      ultimately show False using set_prop_not_null by blast
    qed
    ultimately show "json_norm x \<noteq> JNull" by (simp add: json_norm_id)
  qed
  show "fst (setQty i q st) = None"
    by (simp add: a save_ok [OF nn])
  show "getLines (snd (setQty i q st)) = JArr ?new"
    using jn by (simp add: a getLines_def list_all_iff json_norm_id map_idI)
qed


section \<open>Properties of the checkout row\<close>

lemma markup_free_append [simp]: "markup_free (a @ b) = (markup_free a \<and> markup_free b)"
  by (simp add: markup_free_def)

lemma markup_free_Nil [simp]: "markup_free []"
  by (simp add: markup_free_def)

lemma markup_free_concat: "(\<And>s. s \<in> set ss \<Longrightarrow> markup_free s) \<Longrightarrow> markup_free (concat ss)"
  by (induction ss) simp_all

lemma markup_free_escape_map: "markup_free (escape_map m)"
  by (simp add: escape_map_def markup_free_def)

lemma markup_free_escapeHtml: "markup_free (escapeHtml s)"
  unfolding escapeHtml_def
  by (rule markup_free_concat) (auto simp: markup_free_escape_map)

lemma escapeAttr_escapeHtml: "escapeAttr s = escapeHtml s"
proof -
  have "concat (map (\<lambda>c. if c = CHR 0x22 then ''&quot;'' else [c]) t) = t" if "markup_free t" for t
    using that by (induction t) (simp_all add: markup_free_def)
  then show ?thesis
    by (simp add: escapeAttr_def markup_free_escapeHtml)
qed

lemma markup_free_escapeAttr: "markup_free (escapeAttr s)"
  by (simp add: escapeAttr_escapeHtml markup_free_escapeHtml)

lemma markup_free_Cons:
  "markup_free (c # s) = (c \<noteq> CHR ''<'' \<and> c \<noteq> CHR ''>'' \<and> c \<noteq> CHR 0x22 \<and> c \<noteq> CHR 0x27 \<and> markup_free s)"
  by (auto simp: markup_free_def)

lemma markup_free_subset: "set s \<subseteq> set t \<Longrightarrow> markup_free t \<Longrightarrow> markup_free s"
  by (auto simp: markup_free_def list_all_iff)

lemma markup_free_digit_char: "d < 10 \<Longrightarrow> markup_free [digit_char d]"
proof -
  assume "d < 10"
  then have "nat d < length ''0123456789''" by simp
  then have "digit_char d \<in> set ''0123456789''"
    unfolding digit_char_def by (rule nth_mem)
  then show ?thesis by (auto simp: markup_free_def)
qed

lemma markup_free_digits10: "markup_free (digits10 n)"
proof (induction n rule: digits10.induct)
  case (1 n)
  show ?case
  proof (cases "n < 10")
    case True
    then show ?thesis by (simp add: digits10.simps [of n] markup_free_digit_char)
  next
    case False
    with 1 show ?thesis by (simp add: digits10.simps [of n] markup_free_digit_char)
  qed
qed

lemma markup_free_strip_zeros: "markup_free s \<Longrightarrow> markup_free (strip_zeros s)"
proof -
  have "set (strip_zeros s) \<subseteq> set s"
    unfolding strip_zeros_def using set_dropWhileD [of _ _ "rev s"] by fastforce
  then show "markup_free s \<Longrightarrow> markup_free (strip_zeros s)"
    by (rule markup_free_subset)
qed

lemma markup_free_take: "markup_free s \<Longrightarrow> markup_free (take k s)"
  by (rule markup_free_subset [OF set_take_subset])

lemma markup_free_drop: "markup_free s \<Longrightarrow> markup_free (drop k s)"
  by (rule markup_free_subset [OF set_drop_subset])

lemma markup_free_zeros: "markup_free (replicate k (CHR ''0''))"
  by (simp add: markup_free_def list_all_iff)

lemma markup_free_pos_to_string: "markup_free (pos_to_string r)"
proof -
  have s: "markup_free (strip_zeros (digits10 \<lfloor>scale10 r (17 - dec_exponent r)\<rfloor>))"
    by (rule markup_free_strip_zeros [OF markup_free_digits10])
  have c: "markup_free ''.''" "markup_free ''0.''" "markup_free ''e''" "markup_free ''-''" "markup_free ''+''"
    by (simp_all add: markup_free_def)
  show ?thesis
    unfolding pos_to_string_def Let_def
    by (simp add: s markup_free_Cons markup_free_take markup_free_drop markup_free_zeros
        markup_free_digits10)
qed

lemma markup_free_num_to_string: "markup_free (num_to_string n)"
proof (cases n)
  case NaN
  then show ?thesis by (simp add: markup_free_def)
next
  case (Fin r)
  have c: "markup_free ''0''" "markup_free ''-''"
    by (simp_all add: markup_free_def)
  show ?thesis
    using Fin by (simp add: markup_free_Cons markup_free_pos_to_string)
qed

lemma markup_free_toFixed2: "markup_free (toFixed2 n)"
proof (cases n)
  case NaN
  then show ?thesis by (simp add: toFixed2_def markup_free_def)
next
  case (Fin r)
  have c: "markup_free ''.''" "markup_free ''-''"
    by (simp_all add: markup_free_def)
  have d: "markup_free [digit_char (k mod 100 div 10), digit_char (k mod 10)]" for k
    using markup_free_digit_char [of "k mod 100 div 10"] markup_free_digit_char [of "k mod 10"]
    by (simp add: markup_free_def)
  show ?thesis
    using Fin
    by (simp add: toFixed2_def Let_def markup_free_Cons d [unfolded markup_free_Cons]
        markup_free_pos_to_string markup_free_digits10)
qed

text \<open>
  Claim C8: for every value \<open>s\<close>, \<open>escapeHtml(s)\<close> contains none of the characters
  \<open><\<close>, \<open>>\<close>, double quote and single quote. The row that \<open>renderCheckout\<close> builds
  for a line contains the line's name only as \<open>escapeHtml(name)\<close> and its note only
  as \<open>escapeAttr(note || "")\<close>, both free of these characters; the other inserted
  texts are computed from the price and the quantity. If the quantity is a number or
  \<open>null\<close>, as the cart's own operations store it, no inserted text of the row
  contains any of these characters.
\<close>

theorem name_and_note_are_escaped:
  "markup_free (escapeHtml s) \<and>
   markup_free (escapeAttr s) \<and>
   (render_row line = Inr ps \<longrightarrow>
      (\<exists>name price qty note.
         get_prop line ''name'' = Inr name \<and> get_prop line ''price'' = Inr price \<and>
         get_prop line ''qty'' = Inr qty \<and> get_prop line ''note'' = Inr note \<and>
         ps = [Fixed 0, Inserted (escapeHtml name),
               Fixed 1, Inserted (toFixed2 (to_number price)),
               Fixed 2, Inserted (to_string qty),
               Fixed 3, Inserted (toFixed2 (num_mul (to_number price) (to_number qty))),
               Fixed 4, Inserted (escapeAttr (js_or note (JStr []))),
               Fixed 5] \<and>
         markup_free (escapeHtml name) \<and>
         markup_free (escapeAttr (js_or note (JStr []))) \<and>
         (qty = JNull \<or> (\<exists>n. qty = JNum n) \<longrightarrow> (\<forall>t. Inserted t \<in> set ps \<longrightarrow> markup_free t))))"
  by (auto simp: markup_free_escapeHtml markup_free_escapeAttr markup_free_toFixed2
      markup_free_num_to_string markup_free_Cons render_row_def split: sum.splits)

theorem name_and_note_are_escaped_witness:
  "render_row (JObj [(''menu_item_id'', JStr ''A''),
                     (''name'', JStr (''<b>Pad & Thai</b>'')),
                     (''price'', jnum 60), (''qty'', jnum 2),
                     (''note'', JStr (''x'' @ [CHR 0x22] @ '' onfocus='' @ [CHR 0x22] @ ''alert(1)''))]) =
     Inr [Fixed 0, Inserted ''&lt;b&gt;Pad &amp; Thai&lt;/b&gt;'',
          Fixed 1, Inserted ''60.00'',
          Fixed 2, Inserted ''2'',
          Fixed 3, Inserted ''120.00'',
          Fixed 4, Inserted ''x&quot; onfocus=&quot;alert(1)'',
          Fixed 5] \<and>
   markup_free ''&lt;b&gt;Pad &amp; Thai&lt;/b&gt;'' \<and>
   markup_free ''x&quot; onfocus=&quot;alert(1)'' \<and>
   markup_free ''2''"
proof -
  let ?line = "JObj [(''menu_item_id'', JStr ''A''),
                     (''name'', JStr (''<b>Pad & Thai</b>'')),
                     (''price'', jnum 60), (''qty'', jnum 2),
                     (''note'', JStr (''x'' @ [CHR 0x22] @ '' onfocus='' @ [CHR 0x22] @ ''alert(1)''))]"
  let ?ps = "[Fixed 0, Inserted ''&lt;b&gt;Pad &amp; Thai&lt;/b&gt;'',
          Fixed 1, Inserted ''60.00'',
          Fixed 2, Inserted ''2'',
          Fixed 3, Inserted ''120.00'',
          Fixed 4, Inserted ''x&quot; onfocus=&quot;alert(1)'',
          Fixed 5]"
  have r: "render_row ?line = Inr ?ps"
    by code_simp
  have g: "get_prop ?line ''qty'' = Inr (jnum 2)"
    by simp
  from name_and_note_are_escaped [of _ ?line ?ps] r
  obtain qty where "get_prop ?line ''qty'' = Inr qty"
    and a: "qty = JNull \<or> (\<exists>n. qty = JNum n) \<longrightarrow> (\<forall>t. Inserted t \<in> set ?ps \<longrightarrow> markup_free t)"
    by blast
  with g have "qty = jnum 2"
    by simp
  with a have "\<forall>t. Inserted t \<in> set ?ps \<longrightarrow> markup_free t"
    by blast
  then have "markup_free ''&lt;b&gt;Pad &amp; Thai&lt;/b&gt;''"
    and "markup_free ''x&quot; onfocus=&quot;alert(1)''" and "markup_free ''2''"
    by simp_all
  with r show ?thesis by simp
qed


section \<open>Properties of the offline cache\<close>

text \<open>
  Claim C6: the \<open>fetch\<close> listener passes a request that is not a GET through without
  responding; it answers a GET that the cache matches from the cache and sends nothing
  to the network; it sends a GET that the cache does not match to the network and
  answers with the response, or, if the network fails, with the cached entry, which is
  then \<open>undefined\<close>.
\<close>

theorem fetch_listener_cache_first:
  "(req_method req \<noteq> ''GET'' \<longrightarrow> fetch_listener c n req = (PassedThrough, [])) \<and>
   (req_method req = ''GET'' \<and> c req = Some r \<longrightarrow>
      fetch_listener c n req = (RespondedWith (Some r), [])) \<and>
   (req_method req = ''GET'' \<and> c req = None \<and> n req = Resolved r \<longrightarrow>
      fetch_listener c n req = (RespondedWith (Some r), [req])) \<and>
   (req_method req = ''GET'' \<and> c req = None \<and> n req = Rejected \<longrightarrow>
      fetch_listener c n req = (RespondedWith (c req), [req]) \<and>
      fetch_listener c n req = (RespondedWith None, [req]))"
  by (simp add: fetch_listener_def)

theorem fetch_listener_cache_first_witness:
  "fetch_listener
     (\<lambda>q. if req_url q = ''/static/app.js'' then Some ''cached app.js'' else None)
     (\<lambda>q. if req_url q = ''/menu'' then Resolved ''menu page'' else Rejected)
     \<lparr>req_method = ''POST'', req_url = ''/order''\<rparr> = (PassedThrough, []) \<and>
   fetch_listener
     (\<lambda>q. if req_url q = ''/static/app.js'' then Some ''cached app.js'' else None)
     (\<lambda>q. if req_url q = ''/menu'' then Resolved ''menu page'' else Rejected)
     \<lparr>req_method = ''GET'', req_url = ''/static/app.js''\<rparr> =
       (RespondedWith (Some ''cached app.js''), []) \<and>
   fetch_listener
     (\<lambda>q. if req_url q = ''/static/app.js'' then Some ''cached app.js'' else None)
     (\<lambda>q. if req_url q = ''/menu'' then Resolved ''menu page'' else Rejected)
     \<lparr>req_method = ''GET'', req_url = ''/menu''\<rparr> =
       (RespondedWith (Some ''menu page''), [\<lparr>req_method = ''GET'', req_url = ''/menu''\<rparr>]) \<and>
   fetch_listener
     (\<lambda>q. if req_url q = ''/static/app.js'' then Some ''cached app.js'' else None)
     (\<lambda>q. if req_url q = ''/menu'' then Resolved ''menu page'' else Rejected)
     \<lparr>req_method = ''GET'', req_url = ''/cart''\<rparr> =
       (RespondedWith None, [\<lparr>req_method = ''GET'', req_url = ''/cart''\<rparr>])"
proof -
  let ?c = "\<lambda>q. if req_url q = ''/static/app.js'' then Some ''cached app.js'' else None"
  let ?n = "\<lambda>q. if req_url q = ''/menu'' then Resolved ''menu page'' else Rejected"
  note t = fetch_listener_cache_first [where c = ?c and n = ?n]
  from t [of "\<lparr>req_method = ''POST'', req_url = ''/order''\<rparr>"]
  have 1: "fetch_listener ?c ?n \<lparr>req_method = ''POST'', req_url = ''/order''\<rparr> = (PassedThrough, [])"
    by simp
  from t [of "\<lparr>req_method = ''GET'', req_url = ''/static/app.js''\<rparr>" "''cached app.js''"]
  have 2: "fetch_listener ?c ?n \<lparr>req_method = ''GET'', req_url = ''/static/app.js''\<rparr> =
       (RespondedWith (Some ''cached app.js''), [])"
    by simp
  from t [of "\<lparr>req_method = ''GET'', req_url = ''/menu''\<rparr>" "''menu page''"]
  have 3: "fetch_listener ?c ?n \<lparr>req_method = ''GET'', req_url = ''/menu''\<rparr> =
       (RespondedWith (Some ''menu page''), [\<lparr>req_method = ''GET'', req_url = ''/menu''\<rparr>])"
    by simp
  from t [of "\<lparr>req_method = ''GET'', req_url = ''/cart''\<rparr>"]
  have 4: "fetch_listener ?c ?n \<lparr>req_method = ''GET'', req_url = ''/cart''\<rparr> =
       (RespondedWith None, [\<lparr>req_method = ''GET'', req_url = ''/cart''\<rparr>])"
    by simp
  from 1 2 3 4 show ?thesis by (simp only: simp_thms)
qed


section \<open>Properties of the payment confirmation\<close>



lemma alerts_update_element [simp]: "alerts (update_element i f st) = alerts st"
  by (simp add: update_element_def split: option.splits)

lemma posted_update_element [simp]: "posted (update_element i f st) = posted st"
  by (simp add: update_element_def split: option.splits)







end
